theory Spec2Isabelle
  imports Complex_Main "HOL-Library.AList"
begin

section \<open>Sentinel2\_Data.py: exceptions, strings, floats\<close>

text \<open>
  The exception classes of the module (\<open>NoPath\<close>, \<open>NoResolution\<close>, \<open>NoSafeFileError\<close>) and
  the built-in exceptions its functions raise or let through. Each carries its message.
\<close>

datatype error =
    NoPath string
  | NoResolution string
  | NoSafeFileError string
  | TypeError string
  | FileNotFoundError string
  | IndexError string
  | OSError string
  | RasterioIOError string
  | ZeroDivisionError string
  | ValueError string
  | OverflowError string
  | PermissionError string

text \<open>
  A call either returns a value or raises; either way it leaves a state behind (the
  files, the open handles), which the caller can observe afterwards.
\<close>

datatype ('a, 's) outcome = Returned 'a 's | Raised error 's

definition and_then :: "('a, 's) outcome \<Rightarrow> ('a \<Rightarrow> 's \<Rightarrow> ('b, 's) outcome) \<Rightarrow> ('b, 's) outcome" where
  "and_then m f = (case m of Raised e s \<Rightarrow> Raised e s | Returned a s \<Rightarrow> f a s)"

definition lift :: "error + 'a \<Rightarrow> 's \<Rightarrow> ('a, 's) outcome" where
  "lift r st = (case r of Inl e \<Rightarrow> Raised e st | Inr a \<Rightarrow> Returned a st)"

text \<open>Python's \<open>s[a:b]\<close> for literal bounds \<open>0 \<le> a \<le> b\<close>: it never raises, it truncates.\<close>

definition slice :: "nat \<Rightarrow> nat \<Rightarrow> 'a list \<Rightarrow> 'a list" where
  "slice a b s = take (b - a) (drop a s)"

definition endswith :: "string \<Rightarrow> string \<Rightarrow> bool" where
  "endswith s suf = (length suf \<le> length s \<and> drop (length s - length suf) s = suf)"

definition getDate :: "string \<Rightarrow> string" where
  "getDate filename = slice 11 15 filename @ ''-'' @ slice 15 17 filename @ ''-'' @ slice 17 19 filename"

definition getTile :: "string \<Rightarrow> string" where
  "getTile filename = slice 38 44 filename"

text \<open>
  Python floats are IEEE 754 binary64 numbers: the finite ones (as the real numbers they
  denote), the two infinities and NaN. \<open>round_double\<close> is rounding to nearest, ties to
  even, with 53 significant bits, the smallest exponent \<open>-1022\<close> (below it the spacing
  stays \<open>2^-1074\<close>) and overflow to an infinity above the largest finite double.
\<close>

datatype double = Finite real | PosInf | NegInf | NaN

definition round_half_even :: "real \<Rightarrow> int" where
  "round_half_even t =
     (let f = \<lfloor>t\<rfloor>; d = t - of_int f
      in if d < 1 / 2 then f else if 1 / 2 < d then f + 1 else if even f then f else f + 1)"

definition max_double :: real where
  "max_double = (2 ^ 53 - 1) * 2 ^ 971"

definition round_double :: "real \<Rightarrow> double" where
  "round_double x =
     (if x = 0 then Finite 0
      else
        let e = max \<lfloor>log 2 \<bar>x\<bar>\<rfloor> (- 1022);
            q = 2 powr of_int (e - 52);
            y = of_int (round_half_even (x / q)) * q
        in if max_double < \<bar>y\<bar> then (if 0 < y then PosInf else NegInf) else Finite y)"

definition double_add :: "double \<Rightarrow> double \<Rightarrow> double" where
  "double_add a b =
     (case (a, b) of
        (NaN, _) \<Rightarrow> NaN
      | (_, NaN) \<Rightarrow> NaN
      | (PosInf, NegInf) \<Rightarrow> NaN
      | (NegInf, PosInf) \<Rightarrow> NaN
      | (PosInf, _) \<Rightarrow> PosInf
      | (_, PosInf) \<Rightarrow> PosInf
      | (NegInf, _) \<Rightarrow> NegInf
      | (_, NegInf) \<Rightarrow> NegInf
      | (Finite x, Finite y) \<Rightarrow> round_double (x + y))"

definition double_less :: "double \<Rightarrow> double \<Rightarrow> bool" where
  "double_less a b =
     (case (a, b) of
        (NaN, _) \<Rightarrow> False
      | (_, NaN) \<Rightarrow> False
      | (Finite x, Finite y) \<Rightarrow> x < y
      | (NegInf, NegInf) \<Rightarrow> False
      | (NegInf, _) \<Rightarrow> True
      | (_, NegInf) \<Rightarrow> False
      | (PosInf, _) \<Rightarrow> False
      | (_, PosInf) \<Rightarrow> True)"

text \<open>
  \<open>x + n\<close> for a float \<open>x\<close> and a Python integer \<open>n\<close>: the integer is converted to the
  nearest float, which raises when it is too large, and the two floats are added.
\<close>

definition int_to_double :: "int \<Rightarrow> error + double" where
  "int_to_double n =
     (case round_double (of_int n) of
        Finite y \<Rightarrow> Inr (Finite y)
      | _ \<Rightarrow> Inl (OverflowError ''int too large to convert to float''))"

definition float_plus_int :: "double \<Rightarrow> int \<Rightarrow> error + double" where
  "float_plus_int x n =
     (case int_to_double n of
        Inl e \<Rightarrow> Inl e
      | Inr v \<Rightarrow> Inr (double_add x v))"

section \<open>Paths and files\<close>

text \<open>
  \<open>os.path.join\<close> with two arguments, on POSIX: an absolute second part replaces the
  first, and a separator is put between the parts when the first does not end in one.
\<close>

definition path_join :: "string \<Rightarrow> string \<Rightarrow> string" where
  "path_join a b =
     (if b \<noteq> [] \<and> hd b = CHR ''/'' then b
      else if a = [] \<or> last a = CHR ''/'' then a @ b
      else a @ ''/'' @ b)"

text \<open>
  The file system as the module sees it: the regular files, each under the path string
  that names it, with the dataset stored in it, and the paths of the datasets that are
  held open. Paths are compared as strings. The order of \<open>disk\<close> is the order in which
  a listing reports them.
\<close>

record 'd store =
  disk :: "(string \<times> 'd) list"
  opened :: "string list"

text \<open>
  \<open>os.listdir\<close>: the names directly under the directory, each once. The empty string
  names no directory; any other directory string is taken to name an existing directory.
\<close>

definition entry_of :: "string \<Rightarrow> string \<Rightarrow> string option" where
  "entry_of directory path =
     (let pre = path_join directory []
      in if take (length pre) path = pre \<and> length pre < length path
         then Some (takeWhile (\<lambda>c. c \<noteq> CHR ''/'') (drop (length pre) path))
         else None)"

definition listing :: "string \<Rightarrow> 'd store \<Rightarrow> string list" where
  "listing directory st = remdups (List.map_filter (entry_of directory) (map fst (disk st)))"

definition os_listdir :: "string \<Rightarrow> 'd store \<Rightarrow> (string list, 'd store) outcome" where
  "os_listdir directory st =
     (if directory = [] then Raised (FileNotFoundError directory) st
      else Returned (listing directory st) st)"

text \<open>\<open>os.remove\<close> inside \<open>delete\<close>: a missing path becomes \<open>NoPath\<close>.\<close>

definition delete :: "string \<Rightarrow> 'd store \<Rightarrow> (unit, 'd store) outcome" where
  "delete path st =
     (if path \<in> fst ` set (disk st) then Returned () (st\<lparr>disk := AList.delete path (disk st)\<rparr>)
      else Raised (NoPath ''No file in this path'') st)"

text \<open>\<open>os.rename\<close>: the source must exist; an existing destination is replaced.\<close>

definition os_rename :: "string \<Rightarrow> string \<Rightarrow> 'd store \<Rightarrow> (unit, 'd store) outcome" where
  "os_rename src dst st =
     (if src \<notin> fst ` set (disk st) then Raised (FileNotFoundError src) st
      else if src = dst then Returned () st
      else Returned ()
             (st\<lparr>disk := map (\<lambda>(n, d). if n = src then (dst, d) else (n, d))
                               (AList.delete dst (disk st))\<rparr>))"

text \<open>
  The operations of the xarray library the merge uses, on a dataset type \<open>'d\<close> the
  module never looks into: the values of the \<open>lon\<close> coordinate, selection of a label
  slice of \<open>lon\<close>, and \<open>combine_by_coords\<close> and \<open>open_mfdataset\<close> (given the contents of
  the files it is pointed at), both of which can refuse their arguments.
\<close>

record 'd xarray =
  lon_values :: "'d \<Rightarrow> real list"
  sel_lon :: "'d \<Rightarrow> real \<Rightarrow> real \<Rightarrow> 'd"
  combine_by_coords :: "'d list \<Rightarrow> error + 'd"
  open_mfdataset :: "'d list \<Rightarrow> error + 'd"

text \<open>\<open>xr.open_dataset\<close> keeps the file open until the dataset is closed.\<close>

definition open_dataset :: "string \<Rightarrow> 'd store \<Rightarrow> ('d, 'd store) outcome" where
  "open_dataset path st =
     (case map_of (disk st) path of
        None \<Rightarrow> Raised (FileNotFoundError path) st
      | Some d \<Rightarrow> Returned d (st\<lparr>opened := path # opened st\<rparr>))"

definition close_dataset :: "string \<Rightarrow> 'd store \<Rightarrow> 'd store" where
  "close_dataset path st = st\<lparr>opened := remove1 path (opened st)\<rparr>"

text \<open>\<open>to_netcdf\<close>: a file that is held open cannot be written over.\<close>

definition to_netcdf :: "string \<Rightarrow> 'd \<Rightarrow> 'd store \<Rightarrow> (unit, 'd store) outcome" where
  "to_netcdf path ds st =
     (if path \<in> set (opened st) then Raised (PermissionError path) st
      else Returned () (st\<lparr>disk := AList.update path ds (disk st)\<rparr>))"

text \<open>\<open>ds.lon[0]\<close>: indexing an empty coordinate raises.\<close>

definition lon0 :: "'d xarray \<Rightarrow> 'd \<Rightarrow> 'd store \<Rightarrow> (real, 'd store) outcome" where
  "lon0 xr ds st =
     (case lon_values xr ds of
        [] \<Rightarrow> Raised (IndexError ''index 0 is out of bounds'') st
      | x # _ \<Rightarrow> Returned x st)"

text \<open>Line 418: the path is \<open>directory + name + ".nc"\<close>, with no separator added.\<close>

definition safe_datacube :: "'d \<Rightarrow> string \<Rightarrow> string \<Rightarrow> 'd store \<Rightarrow> (unit, 'd store) outcome" where
  "safe_datacube ds name directory st = to_netcdf (directory @ name @ ''.nc'') ds st"

definition merge_coords :: "'d xarray \<Rightarrow> 'd \<Rightarrow> 'd \<Rightarrow> string \<Rightarrow> string \<Rightarrow> 'd store \<Rightarrow> (unit, 'd store) outcome" where
  "merge_coords xr ds_left ds_right name directory st =
     and_then (lon0 xr ds_left st) (\<lambda>l0 st.
     and_then (lon0 xr ds_right st) (\<lambda>r0 st.
       let ds_selected = sel_lon xr ds_left l0 r0
       in and_then (lift (combine_by_coords xr [ds_selected, ds_right]) st) (\<lambda>merged st.
            safe_datacube merged name directory st)))"

section \<open>merge\_Sentinel\<close>

text \<open>The body of the inner loop, for one pair \<open>(file1, file2)\<close> of the listing.\<close>

definition pair_body :: "'d xarray \<Rightarrow> string \<Rightarrow> string \<Rightarrow> string \<Rightarrow> 'd store \<Rightarrow> (unit, 'd store) outcome" where
  "pair_body xr directory file1 file2 st =
     (let file1Date = slice 9 19 file1;
          file1Tile = slice 20 26 file1;
          file1Res = slice 27 31 file1;
          file2Date = slice 9 19 file2;
          file2Tile = slice 20 26 file2;
          file2Res = slice 27 31 file2
      in if slice 21 23 file1 = ''31'' then delete (path_join directory file1) st
         else if slice 21 23 file2 = ''31'' then delete (path_join directory file2) st
         else if file1Date = file2Date \<and> file1Tile = file2Tile \<and> file1Res = file2Res
           then Returned () st
         else if file1Date = file2Date \<and> file1Tile = ''T32ULC'' \<and> file2Tile = ''T32UMC''
                 \<and> file1Res = file2Res
           then and_then (open_dataset (path_join directory file1) st) (\<lambda>fileLeft st.
                and_then (open_dataset (path_join directory file2) st) (\<lambda>fileRight st.
                and_then (merge_coords xr fileLeft fileRight
                            (slice 0 20 file1 @ ''Merged'' @ slice 26 31 file1) directory st) (\<lambda>_ st.
                let st = close_dataset (path_join directory file1) st;
                    st = close_dataset (path_join directory file2) st
                in and_then (delete (path_join directory file1) st) (\<lambda>_ st.
                   delete (path_join directory file2) st))))
         else Returned () st)"

text \<open>\<open>for file2 in files\<close>, for a fixed \<open>file1\<close>; an exception leaves the loop.\<close>

fun inner_loop :: "'d xarray \<Rightarrow> string \<Rightarrow> string \<Rightarrow> string list \<Rightarrow> 'd store \<Rightarrow> (unit, 'd store) outcome" where
  "inner_loop xr directory file1 [] st = Returned () st"
| "inner_loop xr directory file1 (file2 # rest) st =
     and_then (pair_body xr directory file1 file2 st) (\<lambda>_ st. inner_loop xr directory file1 rest st)"

text \<open>
  \<open>for file1 in files\<close>: the first list is what is left of the outer iteration, the
  second the list \<open>files\<close> itself, which the inner loop walks from its start each time.
\<close>

fun outer_loop :: "'d xarray \<Rightarrow> string \<Rightarrow> string list \<Rightarrow> string list \<Rightarrow> 'd store \<Rightarrow> (unit, 'd store) outcome" where
  "outer_loop xr directory [] files st = Returned () st"
| "outer_loop xr directory (file1 # rest) files st =
     and_then (inner_loop xr directory file1 files st) (\<lambda>_ st. outer_loop xr directory rest files st)"

text \<open>Lines 384 to 387: every listed file is opened; datasets and paths are collected.\<close>

fun open_all :: "string \<Rightarrow> string list \<Rightarrow> 'd store \<Rightarrow> ('d list \<times> string list, 'd store) outcome" where
  "open_all directory [] st = Returned ([], []) st"
| "open_all directory (f # fs) st =
     and_then (open_dataset (path_join directory f) st) (\<lambda>x st.
     and_then (open_all directory fs st) (\<lambda>(ds_merge, paths) st.
       Returned (x # ds_merge, path_join directory f # paths) st))"

fun close_all :: "string list \<Rightarrow> 'd store \<Rightarrow> 'd store" where
  "close_all [] st = st"
| "close_all (p # ps) st = close_all ps (close_dataset p st)"

fun delete_all :: "string list \<Rightarrow> 'd store \<Rightarrow> (unit, 'd store) outcome" where
  "delete_all [] st = Returned () st"
| "delete_all (f # fs) st = and_then (delete f st) (\<lambda>_ st. delete_all fs st)"

text \<open>
  Lines 382 to 399: the directory is listed again, every file in it is opened and the
  files are combined by \<open>open_mfdataset\<close> (which refuses an empty list of paths); the
  result is written to \<open>directory + nameSentinel + ".nc"\<close>, the datasets are closed and
  the files that were combined are deleted.
\<close>

definition concat_phase :: "'d xarray \<Rightarrow> string \<Rightarrow> string \<Rightarrow> 'd store \<Rightarrow> (unit, 'd store) outcome" where
  "concat_phase xr directory nameSentinel st =
     and_then (os_listdir directory st) (\<lambda>names st.
     and_then (open_all directory names st) (\<lambda>(ds_merge, paths) st.
       if paths = [] then Raised (OSError ''no files to open'') st
       else
         and_then (lift (open_mfdataset xr ds_merge) st) (\<lambda>datacube st.
         and_then (to_netcdf (directory @ nameSentinel @ ''.nc'') datacube st) (\<lambda>_ st.
           delete_all paths (close_all paths st)))))"

text \<open>
  Line 355 renames \<open>directory + name\<close> to \<open>directory + "merged_cube.nc"\<close>; the loops and
  the final phase reach the files through \<open>os.path.join(directory, name)\<close>.
\<close>

definition merge_Sentinel :: "'d xarray \<Rightarrow> string \<Rightarrow> string \<Rightarrow> 'd store \<Rightarrow> (unit, 'd store) outcome" where
  "merge_Sentinel xr directory nameSentinel st =
     and_then (os_listdir directory st) (\<lambda>names st.
       if \<not> list_all (\<lambda>nc. endswith nc ''.nc'') names
         then Raised (TypeError ''Wrong file in directory'') st
       else if length names = 0 then Raised (FileNotFoundError ''Directory empty'') st
       else if length names = 1 then
         and_then (os_listdir directory st) (\<lambda>again st.
           os_rename (directory @ hd again) (directory @ ''merged_cube.nc'') st)
       else and_then (outer_loop xr directory names names st) (\<lambda>_ st.
              concat_phase xr directory nameSentinel st))"

text \<open>
  The comparisons of the two nested loops, written as one sequence of pairs, and the
  property that each pair compared consists of two names the directory lists at the
  moment of the comparison.
\<close>

fun run_pairs :: "'d xarray \<Rightarrow> string \<Rightarrow> (string \<times> string) list \<Rightarrow> 'd store \<Rightarrow> (unit, 'd store) outcome" where
  "run_pairs xr directory [] st = Returned () st"
| "run_pairs xr directory ((file1, file2) # rest) st =
     and_then (pair_body xr directory file1 file2 st) (\<lambda>_ st. run_pairs xr directory rest st)"

fun compares_current_listing :: "'d xarray \<Rightarrow> string \<Rightarrow> (string \<times> string) list \<Rightarrow> 'd store \<Rightarrow> bool" where
  "compares_current_listing xr directory [] st = True"
| "compares_current_listing xr directory ((file1, file2) # rest) st =
     (file1 \<in> set (listing directory st) \<and> file2 \<in> set (listing directory st) \<and>
      (case pair_body xr directory file1 file2 st of
         Raised e st' \<Rightarrow> True
       | Returned u st' \<Rightarrow> compares_current_listing xr directory rest st'))"



text \<open>
  An instance of the library operations on datasets reduced to their longitude axis, to
  run the merge on concrete directories. A label slice keeps the values inside the closed
  interval. Combining by coordinates refuses an empty axis, refuses datasets that all
  have the same axis (nothing orders them), and otherwise puts the axes one after the
  other in the order of their first values, which must give an ascending axis.
\<close>

definition combine_axes :: "real list list \<Rightarrow> error + real list" where
  "combine_axes ds =
     (if [] \<in> set ds then Inl (ValueError ''Cannot handle size zero dimensions'')
      else if 1 < length ds \<and> list_all (\<lambda>d. d = hd ds) ds
        then Inl (ValueError ''Could not find any dimension coordinates to use to order the datasets for concatenation'')
      else
        let joined = concat (sort_key hd ds)
        in if sorted joined then Inr joined
           else Inl (ValueError ''Resulting object does not have monotonic global indexes along dimension lon''))"

definition lon_axis :: "(real list) xarray" where
  "lon_axis = \<lparr> lon_values = (\<lambda>d. d),
                sel_lon = (\<lambda>d a b. filter (\<lambda>x. a \<le> x \<and> x \<le> b) d),
                combine_by_coords = combine_axes,
                open_mfdataset = combine_axes \<rparr>"

section \<open>loadBand\<close>

text \<open>
  A band raster as rasterio presents it: its bounds (floats), its shape and what
  \<open>read()\<close> returns. The pixel array is kept abstract.
\<close>

record 'p raster =
  bounds_left :: double
  bounds_bottom :: double
  count :: nat
  height :: nat
  width :: nat
  pixels :: 'p

text \<open>Python's \<open>xs[i]\<close> and \<open>xs[i] = v\<close>: a negative index counts from the end, anything out of range raises.\<close>

definition py_index :: "'a list \<Rightarrow> int \<Rightarrow> error + 'a" where
  "py_index xs i =
     (let n = int (length xs); k = (if i < 0 then n + i else i)
      in if 0 \<le> k \<and> k < n then Inr (xs ! nat k) else Inl (IndexError ''list index out of range''))"

definition py_setitem :: "'a list \<Rightarrow> int \<Rightarrow> 'a \<Rightarrow> error + 'a list" where
  "py_setitem xs i v =
     (let n = int (length xs); k = (if i < 0 then n + i else i)
      in if 0 \<le> k \<and> k < n then Inr (xs[nat k := v])
         else Inl (IndexError ''list assignment index out of range''))"

text \<open>Lines 188 to 197: the size of the output grid.\<close>

definition grid_size :: "int \<Rightarrow> error + int" where
  "grid_size resolution =
     (if resolution = 10 then Inr (1830 * 3 * 2)
      else if resolution = 20 then Inr (1830 * 3)
      else if resolution = 60 then Inr 1830
      else if resolution = 100 then Inr 1098
      else Inl (NoResolution ''Invalid Resolution, try 10, 20, 60 or 100''))"

text \<open>
  Lines 203 to 207: the \<open>while j >= 0\<close> loop over the two coordinate lists. Each value is
  a float bound plus an integer product.
\<close>

function coord_loop :: "double \<Rightarrow> double \<Rightarrow> int \<Rightarrow> int \<Rightarrow> int \<Rightarrow> double list \<Rightarrow> double list \<Rightarrow> error + (double list \<times> double list)" where
  "coord_loop left bottom resolution i j lats lons =
     (if j \<ge> 0 then
        (case float_plus_int left (i * resolution) of
           Inl e \<Rightarrow> Inl e
         | Inr x \<Rightarrow>
        (case py_setitem lons i x of
           Inl e \<Rightarrow> Inl e
         | Inr lons' \<Rightarrow>
        (case float_plus_int bottom (j * resolution) of
           Inl e \<Rightarrow> Inl e
         | Inr y \<Rightarrow>
        (case py_setitem lats i y of
           Inl e \<Rightarrow> Inl e
         | Inr lats' \<Rightarrow> coord_loop left bottom resolution (i + 1) (j - 1) lats' lons'))))
      else Inr (lats, lons))"
  by pat_completeness auto
termination
  by (relation "measure (\<lambda>(left, bottom, resolution, i, j, lats, lons). nat (j + 1))") auto

declare coord_loop.simps [simp del]

text \<open>Lines 199 to 207: \<open>[0] * res\<close> twice, then the loop from \<open>i = 0\<close>, \<open>j = res - 1\<close>.\<close>

definition coordinate_vectors :: "int \<Rightarrow> double \<Rightarrow> double \<Rightarrow> int \<Rightarrow> error + (double list \<times> double list)" where
  "coordinate_vectors res left bottom resolution =
     coord_loop left bottom resolution 0 (res - 1)
       (replicate (nat res) (Finite 0)) (replicate (nat res) (Finite 0))"

text \<open>The xarray dataset that \<open>loadBand\<close> assembles: two variables, three coordinates, four attributes.\<close>

record 'p tile_dataset =
  red :: 'p
  nir :: 'p
  time :: "string list"
  lat :: "double list"
  lon :: "double list"
  platform :: string
  processingLevel :: string
  source :: string
  resolution_label :: string

text \<open>What \<open>loadBand\<close> acts on: the raster handles that are open, and the files it has written.\<close>

record 'p io_state =
  open_handles :: "string list"
  written :: "(string \<times> 'p tile_dataset) list"

definition rio_open :: "(string \<rightharpoonup> 'p raster) \<Rightarrow> string \<Rightarrow> 'p io_state \<Rightarrow> ('p raster, 'p io_state) outcome" where
  "rio_open rasters path st =
     (case rasters path of
        None \<Rightarrow> Raised (RasterioIOError path) st
      | Some r \<Rightarrow> Returned r (st\<lparr>open_handles := path # open_handles st\<rparr>))"

definition rio_close :: "string \<Rightarrow> 'p io_state \<Rightarrow> 'p io_state" where
  "rio_close path st = st\<lparr>open_handles := remove1 path (open_handles st)\<rparr>"

text \<open>Python's \<open>str\<close> of an integer.\<close>

definition digit_char :: "nat \<Rightarrow> char" where
  "digit_char n = ''0123456789'' ! n"

function str_nat :: "nat \<Rightarrow> string" where
  "str_nat n = (if n < 10 then [digit_char n] else str_nat (n div 10) @ [digit_char (n mod 10)])"
  by pat_completeness auto
termination
  by (relation "measure (\<lambda>n. n)") auto

declare str_nat.simps [simp del]

definition str_int :: "int \<Rightarrow> string" where
  "str_int i = (if i < 0 then CHR ''-'' # str_nat (nat (- i)) else str_nat (nat i))"

text \<open>
  Lines 211 to 237: at resolution 100 both bands are read again at a fifth of their
  height and width (\<open>int(h * (1/5))\<close>, which is \<open>h div 5\<close>), through rasterio's bilinear
  resampling \<open>read_resampled\<close>; the affine transform computed beside each divides the
  width and the height by the resampled ones and is then dropped. Each band comes with
  the shape of its array.
\<close>

definition resample_bands ::
  "('p raster \<Rightarrow> nat \<times> nat \<times> nat \<Rightarrow> 'p) \<Rightarrow> 'p raster \<Rightarrow> 'p raster \<Rightarrow> 's
     \<Rightarrow> (('p \<times> nat \<times> nat \<times> nat) \<times> ('p \<times> nat \<times> nat \<times> nat), 's) outcome" where
  "resample_bands read_resampled b4 b8 st =
     (let nir_shape = (count b8, height b8 div 5, width b8 div 5);
          nir = read_resampled b8 nir_shape
      in if width b8 div 5 = 0 \<or> height b8 div 5 = 0 then Raised (ZeroDivisionError ''division by zero'') st
         else
           let red_shape = (count b4, height b4 div 5, width b4 div 5);
               red = read_resampled b4 red_shape
           in if width b4 div 5 = 0 \<or> height b4 div 5 = 0 then Raised (ZeroDivisionError ''division by zero'') st
              else Returned ((red, red_shape), (nir, nir_shape)) st)"

text \<open>
  Line 239: \<open>xr.Dataset\<close> accepts the two arrays under the dimensions \<open>time\<close>, \<open>lat\<close>,
  \<open>lon\<close> only when each has the shape the three coordinates give.
\<close>

definition make_dataset ::
  "'p \<times> nat \<times> nat \<times> nat \<Rightarrow> 'p \<times> nat \<times> nat \<times> nat \<Rightarrow> string list \<Rightarrow> double list \<Rightarrow> double list
     \<Rightarrow> string \<Rightarrow> string \<Rightarrow> string \<Rightarrow> error + 'p tile_dataset" where
  "make_dataset red_band nir_band time_coord lats lons plName prLevel label =
     (let dims = (length time_coord, length lats, length lons)
      in if snd red_band \<noteq> dims \<or> snd nir_band \<noteq> dims
           then Inl (ValueError ''conflicting sizes for dimension'')
         else Inr \<lparr> red = fst red_band, nir = fst nir_band, time = time_coord, lat = lats, lon = lons,
                    platform = plName, processingLevel = prLevel,
                    source = ''https://scihub.copernicus.eu/dhus'',
                    resolution_label = label \<rparr>)"

text \<open>The shape of the array that \<open>loadBand\<close> reads from a raster at a resolution.\<close>

definition read_shape :: "int \<Rightarrow> 'p raster \<Rightarrow> nat \<times> nat \<times> nat" where
  "read_shape resolution b =
     (if resolution = 100 then (count b, height b div 5, width b div 5)
      else (count b, height b, width b))"

text \<open>
  \<open>loadBand\<close>. \<open>rasters\<close> are the band files on disk, \<open>read_resampled\<close> is rasterio's
  resampling read, and \<open>date_parses\<close> tells which strings \<open>pd.date_range\<close> accepts as a
  date (line 209 raises on the others). The output path is \<open>directory + "datacube_" + ...\<close>.
\<close>

definition loadBand ::
  "(string \<rightharpoonup> 'p raster) \<Rightarrow> ('p raster \<Rightarrow> nat \<times> nat \<times> nat \<Rightarrow> 'p) \<Rightarrow> (string \<Rightarrow> bool)
     \<Rightarrow> string list \<Rightarrow> string \<Rightarrow> string \<Rightarrow> int \<Rightarrow> string \<Rightarrow> string \<Rightarrow> string
     \<Rightarrow> 'p io_state \<Rightarrow> ('p tile_dataset, 'p io_state) outcome" where
  "loadBand rasters read_resampled date_parses bandpath date tile resolution plName prLevel directory st =
     and_then (lift (py_index bandpath 0) st) (\<lambda>path4 st.
     and_then (rio_open rasters path4 st) (\<lambda>b4 st.
     and_then (lift (py_index bandpath 1) st) (\<lambda>path8 st.
     and_then (rio_open rasters path8 st) (\<lambda>b8 st.
     and_then (lift (grid_size resolution) st) (\<lambda>res st.
     and_then (lift (coordinate_vectors res (bounds_left b4) (bounds_bottom b4) resolution) st) (\<lambda>(lats, lons) st.
     and_then (if date_parses date then Returned [date] st
               else Raised (ValueError ''Unknown datetime string format'') st) (\<lambda>time_coord st.
     and_then (if resolution = 100 then resample_bands read_resampled b4 b8 st
               else Returned ((pixels b4, count b4, height b4, width b4),
                              (pixels b8, count b8, height b8, width b8)) st) (\<lambda>(red_band, nir_band) st.
     and_then (lift (make_dataset red_band nir_band time_coord lats lons plName prLevel
                       (str_int resolution @ '' x '' @ str_int resolution @ '' m'')) st) (\<lambda>dataset st.
       let st = st\<lparr>written :=
                  AList.update (directory @ ''datacube_'' @ date @ ''_'' @ tile @ ''_R'' @ str_int resolution @ ''.nc'')
                    dataset (written st)\<rparr>;
           st = rio_close path4 st;
           st = rio_close path8 st
       in Returned dataset st)))))))))"

text \<open>
  Two band rasters of one tile at 60 m, an initial state with no open handle and nothing
  written, and a date parser that accepts \<open>YYYY-MM-DD\<close> digit strings, to run \<open>loadBand\<close> on.
\<close>

definition example_rasters :: "string \<rightharpoonup> nat raster" where
  "example_rasters = map_of
     [(''T32ULC_B04_60m.jp2'', \<lparr> bounds_left = Finite 300000, bounds_bottom = Finite 5590200, count = 1,
                                 height = 1830, width = 1830, pixels = 4 \<rparr>),
      (''T32ULC_B8A_60m.jp2'', \<lparr> bounds_left = Finite 300000, bounds_bottom = Finite 5590200, count = 1,
                                 height = 1830, width = 1830, pixels = 8 \<rparr>)]"

definition empty_state :: "nat io_state" where
  "empty_state = \<lparr> open_handles = [], written = [] \<rparr>"

definition iso_date :: "string \<Rightarrow> bool" where
  "iso_date s = (length s = 10 \<and> s ! 4 = CHR ''-'' \<and> s ! 7 = CHR ''-''
                 \<and> list_all (\<lambda>c. c \<in> set ''0123456789'') (take 4 s @ take 2 (drop 5 s) @ drop 8 s))"

section \<open>Lemmas about the operations\<close>

lemma and_then_Returned [simp]: "and_then (Returned a s) f = f a s"
  by (simp add: and_then_def)

lemma and_then_Raised [simp]: "and_then (Raised e s) f = Raised e s"
  by (simp add: and_then_def)

lemma lift_Inr [simp]: "lift (Inr a) s = Returned a s"
  by (simp add: lift_def)

lemma lift_Inl [simp]: "lift (Inl e) s = Raised e s"
  by (simp add: lift_def)

section \<open>Properties of float arithmetic\<close>

lemma round_half_even_of_int: "round_half_even (of_int m) = m"
  by (simp add: round_half_even_def)

lemma round_half_even_near: "\<bar>of_int (round_half_even t) - t\<bar> \<le> 1 / 2"
proof -
  have "of_int \<lfloor>t\<rfloor> \<le> t" "t < of_int \<lfloor>t\<rfloor> + 1" by linarith+
  then show ?thesis
    by (auto simp: round_half_even_def Let_def)
qed

lemma max_double_large: "2 ^ 64 \<le> max_double"
proof -
  have "(2::real) ^ 64 = 2 ^ 52 * 2 ^ 12" by simp
  also have "\<dots> \<le> (2 ^ 53 - 1) * 2 ^ 12"
    by (rule mult_right_mono) simp_all
  also have "\<dots> \<le> (2 ^ 53 - 1) * 2 ^ 971"
    by (rule mult_left_mono) (simp_all add: power_increasing)
  finally show ?thesis by (simp add: max_double_def)
qed

lemma below_max_double: "\<bar>y\<bar> \<le> 2 ^ 64 \<Longrightarrow> \<not> max_double < \<bar>y\<bar>"
  using max_double_large by linarith

lemma round_double_eq:
  "x \<noteq> 0 \<Longrightarrow> e = max \<lfloor>log 2 \<bar>x\<bar>\<rfloor> (- 1022) \<Longrightarrow> q = 2 powr of_int (e - 52) \<Longrightarrow>
   y = of_int (round_half_even (x / q)) * q \<Longrightarrow> \<not> max_double < \<bar>y\<bar> \<Longrightarrow>
   round_double x = Finite y"
  by (simp add: round_double_def Let_def)

lemma round_double_near:
  assumes "\<bar>x\<bar> < 2 ^ 52"
  shows "\<exists>y. round_double x = Finite y \<and> \<bar>y - x\<bar> \<le> 1 / 4"
proof (cases "x = 0")
  case True
  then show ?thesis by (simp add: round_double_def)
next
  case False
  define e where "e = max \<lfloor>log 2 \<bar>x\<bar>\<rfloor> (- 1022)"
  define q :: real where "q = 2 powr of_int (e - 52)"
  define y :: real where "y = of_int (round_half_even (x / q)) * q"
  have "log 2 \<bar>x\<bar> < log 2 (2 ^ 52)"
    using False assms by (intro log_less) auto
  moreover have "log 2 ((2::real) ^ 52) = 52" by (subst log_pow_cancel) simp_all
  ultimately have "log 2 \<bar>x\<bar> < 52" by (simp only:)
  then have "\<lfloor>log 2 \<bar>x\<bar>\<rfloor> \<le> 51" by linarith
  then have e: "e \<le> 51" by (simp add: e_def)
  have qpos: "0 < q" by (simp add: q_def)
  have "q \<le> 2 powr (- 1)"
    unfolding q_def using e by (intro powr_mono) auto
  then have qle: "q \<le> 1 / 2" by (simp add: powr_minus)
  have "\<bar>y - x\<bar> = q * \<bar>of_int (round_half_even (x / q)) - x / q\<bar>"
  proof -
    have "y - x = q * (of_int (round_half_even (x / q)) - x / q)"
      using qpos by (simp add: y_def algebra_simps)
    then show ?thesis using qpos by (simp add: abs_mult)
  qed
  also have "\<dots> \<le> q * (1 / 2)"
    using qpos round_half_even_near[of "x / q"] by (intro mult_left_mono) auto
  also have "\<dots> \<le> 1 / 4" using qle by simp
  finally have near: "\<bar>y - x\<bar> \<le> 1 / 4" .
  then have "\<bar>y\<bar> \<le> 2 ^ 52 + 1 / 4" using assms by linarith
  also have "\<dots> \<le> 2 ^ 64" by simp
  finally have "\<not> max_double < \<bar>y\<bar>" by (rule below_max_double)
  then have "round_double x = Finite y"
    by (rule round_double_eq[OF False e_def q_def y_def])
  with near show ?thesis by blast
qed

lemma round_double_of_int:
  assumes "\<bar>n\<bar> < 2 ^ 53"
  shows "round_double (of_int n) = Finite (of_int n)"
proof (cases "n = 0")
  case True
  then show ?thesis by (simp add: round_double_def)
next
  case False
  define x :: real where "x = of_int n"
  define e where "e = max \<lfloor>log 2 \<bar>x\<bar>\<rfloor> (- 1022)"
  define q :: real where "q = 2 powr of_int (e - 52)"
  define y :: real where "y = of_int (round_half_even (x / q)) * q"
  have xn: "x \<noteq> 0" using False by (simp add: x_def)
  have x1: "1 \<le> \<bar>x\<bar>" using False by (simp add: x_def)
  have "real_of_int \<bar>n\<bar> < real_of_int (2 ^ 53)"
    using assms by (simp only: of_int_less_iff)
  then have xlt: "\<bar>x\<bar> < 2 ^ 53" by (simp add: x_def)
  have "log 2 \<bar>x\<bar> < log 2 (2 ^ 53)"
    using x1 xlt by (intro log_less) auto
  moreover have "log 2 ((2::real) ^ 53) = 53" by (subst log_pow_cancel) simp_all
  ultimately have "log 2 \<bar>x\<bar> < 53" by (simp only:)
  then have up: "\<lfloor>log 2 \<bar>x\<bar>\<rfloor> \<le> 52" by linarith
  have "0 \<le> log 2 \<bar>x\<bar>" using x1 by simp
  then have lo: "0 \<le> \<lfloor>log 2 \<bar>x\<bar>\<rfloor>" by simp
  from up lo have e: "e \<le> 52" "0 \<le> e" by (simp_all add: e_def)
  define k where "k = nat (52 - e)"
  have ek: "real_of_int (e - 52) = - real k" using e by (simp add: k_def)
  have "q = inverse (2 powr real k)"
    unfolding q_def ek by (rule powr_minus)
  also have "2 powr real k = (2::real) ^ k" by (rule powr_realpow) simp
  finally have q: "q = inverse (2 ^ k)" .
  have qpos: "0 < q" unfolding q by simp
  have "x / q = x * 2 ^ k" unfolding q by (simp add: field_simps)
  also have "\<dots> = real_of_int (n * 2 ^ k)" by (simp add: x_def)
  finally have "round_half_even (x / q) = n * 2 ^ k"
    by (simp only: round_half_even_of_int)
  then have "y = real_of_int (n * 2 ^ k) * q" by (simp only: y_def)
  also have "\<dots> = x * (2 ^ k * q)" by (simp add: x_def)
  also have "2 ^ k * q = 1" unfolding q by simp
  finally have y: "y = x" by simp
  have "\<bar>y\<bar> \<le> 2 ^ 64" using y xlt by simp
  then have "\<not> max_double < \<bar>y\<bar>" by (rule below_max_double)
  then have "round_double x = Finite y"
    by (rule round_double_eq[OF xn e_def q_def y_def])
  with y show ?thesis by (simp add: x_def)
qed

lemma round_double_1e18_plus_10: "round_double (1000000000000000000 + 10) = Finite 1000000000000000000"
proof -
  let ?x = "1000000000000000000 + 10 :: real"
  have fl: "\<lfloor>log 2 \<bar>?x\<bar>\<rfloor> = 59"
    by (subst floor_log_eq_powr_iff) simp_all
  have e: "(59::int) = max \<lfloor>log 2 \<bar>?x\<bar>\<rfloor> (- 1022)"
    unfolding fl by simp
  have q: "(128::real) = 2 powr of_int (59 - 52)" by simp
  have "round_half_even (?x / 128) = 7812500000000000"
    by (simp add: round_half_even_def Let_def)
  then have y: "(1000000000000000000::real) = of_int (round_half_even (?x / 128)) * 128"
    by simp
  have m: "\<not> max_double < \<bar>1000000000000000000 :: real\<bar>"
    by (rule below_max_double) simp
  show ?thesis
    by (rule round_double_eq[OF _ e q y m]) simp
qed

lemma float_plus_small_int:
  "\<bar>n\<bar> < 2 ^ 53 \<Longrightarrow> float_plus_int x n = Inr (double_add x (Finite (of_int n)))"
  by (simp add: float_plus_int_def int_to_double_def round_double_of_int)

lemma double_add_near:
  assumes "\<bar>a + b\<bar> < 2 ^ 52"
  shows "\<exists>y. double_add (Finite a) (Finite b) = Finite y \<and> \<bar>y - (a + b)\<bar> \<le> 1 / 4"
  using round_double_near[OF assms] by (simp add: double_add_def)

section \<open>Properties of the coordinate loop\<close>

lemma py_setitem_in_range:
  "0 \<le> i \<Longrightarrow> i < int (length xs) \<Longrightarrow> py_setitem xs i v = Inr (xs[nat i := v])"
  by (simp add: py_setitem_def)

lemma coord_loop_spec:
  "0 \<le> i \<Longrightarrow> - 1 \<le> j \<Longrightarrow> i + j + 1 = int (length lats) \<Longrightarrow> length lons = length lats \<Longrightarrow>
   (\<forall>m. 0 \<le> m \<and> m < int (length lats) \<longrightarrow> \<bar>m * resolution\<bar> < 2 ^ 53) \<Longrightarrow>
   \<exists>lats' lons'. coord_loop left bottom resolution i j lats lons = Inr (lats', lons')
     \<and> length lats' = length lats \<and> length lons' = length lats
     \<and> (\<forall>k < length lats. lons' ! k =
           (if int k < i then lons ! k else double_add left (Finite (of_int (int k * resolution)))))
     \<and> (\<forall>k < length lats. lats' ! k =
           (if int k < i then lats ! k
            else double_add bottom (Finite (of_int ((int (length lats) - 1 - int k) * resolution)))))"
proof (induction left bottom resolution i j lats lons rule: coord_loop.induct)
  case (1 left bottom resolution i j lats lons)
  show ?case
  proof (cases "j \<ge> 0")
    case False
    with "1.prems" have "i = int (length lats)" by linarith
    moreover have "coord_loop left bottom resolution i j lats lons = Inr (lats, lons)"
      using False by (subst coord_loop.simps) simp
    ultimately show ?thesis using "1.prems" by simp
  next
    case True
    with "1.prems" have ilt: "i < int (length lats)" "i < int (length lons)" by linarith+
    have jeq: "j = int (length lats) - 1 - i" using "1.prems" by linarith
    have small: "\<bar>i * resolution\<bar> < 2 ^ 53" "\<bar>j * resolution\<bar> < 2 ^ 53"
      using "1.prems"(1,5) ilt True jeq by auto
    let ?x = "double_add left (Finite (of_int (i * resolution)))"
    let ?y = "double_add bottom (Finite (of_int (j * resolution)))"
    let ?lons = "lons[nat i := ?x]"
    let ?lats = "lats[nat i := ?y]"
    have f1: "float_plus_int left (i * resolution) = Inr ?x"
      by (rule float_plus_small_int[OF small(1)])
    have s1: "py_setitem lons i ?x = Inr ?lons"
      using "1.prems" ilt by (simp add: py_setitem_in_range)
    have f2: "float_plus_int bottom (j * resolution) = Inr ?y"
      by (rule float_plus_small_int[OF small(2)])
    have s2: "py_setitem lats i ?y = Inr ?lats"
      using "1.prems" ilt by (simp add: py_setitem_in_range)
    have IH: "\<exists>lats' lons'. coord_loop left bottom resolution (i + 1) (j - 1) ?lats ?lons = Inr (lats', lons')
     \<and> length lats' = length ?lats \<and> length lons' = length ?lats
     \<and> (\<forall>k < length ?lats. lons' ! k =
           (if int k < i + 1 then ?lons ! k else double_add left (Finite (of_int (int k * resolution)))))
     \<and> (\<forall>k < length ?lats. lats' ! k =
           (if int k < i + 1 then ?lats ! k
            else double_add bottom (Finite (of_int ((int (length ?lats) - 1 - int k) * resolution)))))"
      by (rule "1.IH"[OF True f1 s1 f2 s2]) (use "1.prems" True in simp_all)
    then obtain lats' lons' where
      r: "coord_loop left bottom resolution (i + 1) (j - 1) ?lats ?lons = Inr (lats', lons')"
      and l: "length lats' = length lats" "length lons' = length lats"
      and a: "\<forall>k < length lats. lons' ! k =
           (if int k < i + 1 then ?lons ! k else double_add left (Finite (of_int (int k * resolution))))"
      and b: "\<forall>k < length lats. lats' ! k =
           (if int k < i + 1 then ?lats ! k
            else double_add bottom (Finite (of_int ((int (length lats) - 1 - int k) * resolution))))"
      unfolding length_list_update by blast
    have eq: "coord_loop left bottom resolution i j lats lons = Inr (lats', lons')"
      using True f1 s1 f2 s2 r by (subst coord_loop.simps) simp
    have a': "\<forall>k < length lats. lons' ! k =
           (if int k < i then lons ! k else double_add left (Finite (of_int (int k * resolution))))"
    proof (intro allI impI)
      fix k assume k: "k < length lats"
      show "lons' ! k = (if int k < i then lons ! k else double_add left (Finite (of_int (int k * resolution))))"
      proof (cases "int k = i")
        case True
        then have "nat i = k" by simp
        with a k True "1.prems" show ?thesis by simp
      next
        case False
        then have "nat i \<noteq> k" using "1.prems" by auto
        with a k False show ?thesis by auto
      qed
    qed
    have b': "\<forall>k < length lats. lats' ! k =
           (if int k < i then lats ! k
            else double_add bottom (Finite (of_int ((int (length lats) - 1 - int k) * resolution))))"
    proof (intro allI impI)
      fix k assume k: "k < length lats"
      show "lats' ! k = (if int k < i then lats ! k
            else double_add bottom (Finite (of_int ((int (length lats) - 1 - int k) * resolution))))"
      proof (cases "int k = i")
        case True
        then have "nat i = k" by simp
        with b k True jeq show ?thesis by simp
      next
        case False
        then have "nat i \<noteq> k" using "1.prems" by auto
        with b k False show ?thesis by auto
      qed
    qed
    show ?thesis using eq l a' b' by blast
  qed
qed

lemma coordinate_vectors_spec:
  assumes "\<forall>m. 0 \<le> m \<and> m < res \<longrightarrow> \<bar>m * resolution\<bar> < 2 ^ 53"
  shows "\<exists>lats lons. coordinate_vectors res left bottom resolution = Inr (lats, lons)
     \<and> length lats = nat res \<and> length lons = nat res
     \<and> (\<forall>k < nat res. lons ! k = double_add left (Finite (of_int (int k * resolution))))
     \<and> (\<forall>k < nat res. lats ! k = double_add bottom (Finite (of_int ((res - 1 - int k) * resolution))))"
proof (cases "res \<le> 0")
  case True
  then show ?thesis
    by (simp add: coordinate_vectors_def coord_loop.simps[of left bottom resolution 0 "res - 1"])
next
  case False
  then have r: "int (nat res) = res" by simp
  have "\<forall>m. 0 \<le> m \<and> m < int (length (replicate (nat res) (Finite 0))) \<longrightarrow> \<bar>m * resolution\<bar> < 2 ^ 53"
    using assms r by simp
  from coord_loop_spec[of 0 "res - 1" "replicate (nat res) (Finite 0)" "replicate (nat res) (Finite 0)"
        resolution left bottom, OF _ _ _ _ this] r False
  show ?thesis
    by (auto simp: coordinate_vectors_def)
qed

lemma grid_products_small:
  assumes "grid_size resolution = Inr res"
  shows "\<forall>m. 0 \<le> m \<and> m < res \<longrightarrow> \<bar>m * resolution\<bar> < 2 ^ 53"
proof (intro allI impI)
  fix m :: int assume m: "0 \<le> m \<and> m < res"
  from assms have "(resolution = 10 \<and> res = 10980) \<or> (resolution = 20 \<and> res = 5490)
      \<or> (resolution = 60 \<and> res = 1830) \<or> (resolution = 100 \<and> res = 1098)"
    by (auto simp: grid_size_def split: if_splits)
  with m show "\<bar>m * resolution\<bar> < 2 ^ 53" by auto
qed

section \<open>Properties of loadBand\<close>

lemma py_index_pair: "py_index [a, b] 0 = Inr a" "py_index [a, b] 1 = Inr b"
  by (simp_all add: py_index_def)

lemma loadBand_unsupported:
  assumes "rasters path4 = Some b4" "rasters path8 = Some b8"
    and "resolution \<notin> {10, 20, 60, 100}"
  shows "loadBand rasters read_resampled date_parses [path4, path8] date tile resolution plName prLevel directory st =
           Raised (NoResolution ''Invalid Resolution, try 10, 20, 60 or 100'')
             (st\<lparr>open_handles := path8 # path4 # open_handles st\<rparr>)"
  using assms
  by (simp add: loadBand_def py_index_pair rio_open_def grid_size_def)

lemma loadBand_returns:
  assumes r4: "rasters path4 = Some b4" and r8: "rasters path8 = Some b8"
    and gs: "grid_size resolution = Inr res"
    and dp: "date_parses date"
    and s4: "read_shape resolution b4 = (1, nat res, nat res)"
    and s8: "read_shape resolution b8 = (1, nat res, nat res)"
  shows "\<exists>ds st'. loadBand rasters read_resampled date_parses [path4, path8] date tile resolution plName prLevel directory st =
           Returned ds st'
           \<and> coordinate_vectors res (bounds_left b4) (bounds_bottom b4) resolution = Inr (lat ds, lon ds)
           \<and> open_handles st' = remove1 path8 (remove1 path4 (path8 # path4 # open_handles st))"
proof -
  have pos: "0 < res" using gs by (auto simp: grid_size_def split: if_splits)
  obtain lats lons where
    cv: "coordinate_vectors res (bounds_left b4) (bounds_bottom b4) resolution = Inr (lats, lons)"
    and len: "length lats = nat res" "length lons = nat res"
    using coordinate_vectors_spec[OF grid_products_small[OF gs], of "bounds_left b4" "bounds_bottom b4"] by blast
  show ?thesis
  proof (cases "resolution = 100")
    case True
    with s4 s8 pos have sh: "count b4 = 1" "height b4 div 5 = nat res" "width b4 div 5 = nat res"
        "count b8 = 1" "height b8 div 5 = nat res" "width b8 div 5 = nat res"
      by (simp_all add: read_shape_def)
    with pos have "\<not> (width b8 div 5 = 0 \<or> height b8 div 5 = 0)" "\<not> (width b4 div 5 = 0 \<or> height b4 div 5 = 0)"
      by auto
    then have rs: "resample_bands read_resampled b4 b8 s =
        Returned ((read_resampled b4 (count b4, height b4 div 5, width b4 div 5), count b4, height b4 div 5, width b4 div 5),
                  (read_resampled b8 (count b8, height b8 div 5, width b8 div 5), count b8, height b8 div 5, width b8 div 5)) s"
      for s :: "'a io_state"
      by (simp add: resample_bands_def Let_def)
    show ?thesis using r4 r8 gs cv len dp True sh
      by (simp add: loadBand_def py_index_pair rio_open_def rs rio_close_def Let_def make_dataset_def)
  next
    case False
    with s4 s8 have sh: "count b4 = 1" "height b4 = nat res" "width b4 = nat res"
        "count b8 = 1" "height b8 = nat res" "width b8 = nat res"
      by (simp_all add: read_shape_def)
    show ?thesis using r4 r8 gs cv len dp False sh
      by (simp add: loadBand_def py_index_pair rio_open_def rio_close_def Let_def make_dataset_def)
  qed
qed

lemma round_double_1e18: "round_double 1000000000000000000 = Finite 1000000000000000000"
proof -
  let ?x = "1000000000000000000 :: real"
  have fl: "\<lfloor>log 2 \<bar>?x\<bar>\<rfloor> = 59"
    by (subst floor_log_eq_powr_iff) simp_all
  have e: "(59::int) = max \<lfloor>log 2 \<bar>?x\<bar>\<rfloor> (- 1022)"
    unfolding fl by simp
  have q: "(128::real) = 2 powr of_int (59 - 52)" by simp
  have "round_half_even (?x / 128) = 7812500000000000"
    by (simp add: round_half_even_def Let_def)
  then have y: "(1000000000000000000::real) = of_int (round_half_even (?x / 128)) * 128"
    by simp
  have m: "\<not> max_double < \<bar>1000000000000000000 :: real\<bar>"
    by (rule below_max_double) simp
  show ?thesis
    by (rule round_double_eq[OF _ e q y m]) simp
qed

lemma bounded_products_small:
  assumes pos: "0 < resolution" and bound: "\<bar>l\<bar> + real_of_int (res * resolution) \<le> 2 ^ 52"
  shows "\<forall>m. 0 \<le> m \<and> m < res \<longrightarrow> \<bar>m * resolution\<bar> < 2 ^ 53"
proof (intro allI impI)
  fix m :: int assume m: "0 \<le> m \<and> m < res"
  have "real_of_int (res * resolution) \<le> real_of_int (2 ^ 52)" using bound by simp
  then have le: "res * resolution \<le> 2 ^ 52" by (simp only: of_int_le_iff)
  have "m * resolution \<le> res * resolution" using m pos by (intro mult_right_mono) auto
  moreover have "0 \<le> m * resolution" using m pos by simp
  ultimately show "\<bar>m * resolution\<bar> < 2 ^ 53" using le by simp
qed

lemma ascending_values_near:
  assumes pos: "0 < resolution" and bound: "\<bar>l\<bar> + real_of_int (res * resolution) \<le> 2 ^ 52"
    and k: "0 \<le> k" "k < res"
  shows "\<exists>y. double_add (Finite l) (Finite (of_int (k * resolution))) = Finite y
            \<and> \<bar>y - (l + of_int (k * resolution))\<bar> \<le> 1 / 4"
proof -
  have "k * resolution < res * resolution" using k pos by simp
  then have "real_of_int (k * resolution) < real_of_int (res * resolution)" by (simp only: of_int_less_iff)
  moreover have "0 \<le> real_of_int (k * resolution)" using k pos by simp
  ultimately have "\<bar>l + real_of_int (k * resolution)\<bar> < 2 ^ 52" using bound by linarith
  then show ?thesis by (rule double_add_near)
qed

lemma double_less_Finite [simp]: "double_less (Finite a) (Finite b) = (a < b)"
  by (simp add: double_less_def)

section \<open>Properties of paths and listings\<close>

lemma path_join_empty: "path_join d [] = (if d = [] \<or> last d = CHR ''/'' then d else d @ ''/'')"
  by (simp add: path_join_def)





lemma entry_of_beside:
  assumes "d \<noteq> []" "last d \<noteq> CHR ''/''" "x \<noteq> []" "hd x \<noteq> CHR ''/''"
  shows "entry_of d (d @ x) = None"
proof -
  have "take (Suc (length d)) (d @ x) = d @ [hd x]"
    using assms(3) by (cases x) simp_all
  then have "take (length (d @ ''/'')) (d @ x) \<noteq> d @ ''/''"
    using assms(4) by simp
  then show ?thesis
    using assms(1,2) by (simp add: entry_of_def Let_def path_join_empty)
qed



section \<open>Properties of the pairwise loops\<close>

















lemma merge_Sentinel_many:
  assumes "d \<noteq> []" "list_all (\<lambda>nc. endswith nc ''.nc'') (listing d st)" "2 \<le> length (listing d st)"
  shows "merge_Sentinel xr d nameSentinel st =
           and_then (outer_loop xr d (listing d st) (listing d st) st)
             (\<lambda>_ st'. concat_phase xr d nameSentinel st')"
proof -
  from assms(3) have "length (listing d st) \<noteq> 0" "length (listing d st) \<noteq> 1" by auto
  with assms(1,2) show ?thesis by (simp add: merge_Sentinel_def os_listdir_def)
qed


lemma inner_loop_zone31:
  assumes "slice 21 23 f = ''31''"
  shows "\<exists>st'. inner_loop xr d f (a # b # rest) st = Raised (NoPath ''No file in this path'') st'"
  using assms
  by (simp add: pair_body_def delete_def AList.delete_eq image_iff)

lemma outer_loop_zone31:
  assumes "slice 21 23 f = ''31''" "f \<in> set fs" "2 \<le> length files"
  shows "\<exists>e st'. outer_loop xr d fs files st = Raised e st'"
  using assms(2)
proof (induction fs arbitrary: st)
  case Nil
  then show ?case by simp
next
  case (Cons g gs)
  from assms(3) obtain a b rest where files: "files = a # b # rest"
    by (cases files; cases "tl files") auto
  show ?case
  proof (cases "inner_loop xr d g files st")
    case (Raised e st')
    then show ?thesis by simp
  next
    case (Returned u st')
    have "g \<noteq> f"
    proof
      assume "g = f"
      with Returned inner_loop_zone31[OF assms(1), of xr d a b rest st] files show False by auto
    qed
    with Cons.prems have "f \<in> set gs" by simp
    from Cons.IH[OF this, of st'] Returned show ?thesis by simp
  qed
qed

lemma merge_Sentinel_zone31:
  assumes "slice 21 23 f = ''31''" "f \<in> set (listing d st)" "2 \<le> length (listing d st)"
  shows "\<exists>e st'. merge_Sentinel xr d nameSentinel st = Raised e st'"
proof (cases "d \<noteq> [] \<and> list_all (\<lambda>nc. endswith nc ''.nc'') (listing d st)")
  case False
  then show ?thesis by (auto simp: merge_Sentinel_def os_listdir_def)
next
  case True
  from outer_loop_zone31[OF assms(1,2,3), of xr d st] obtain e st' where
    "outer_loop xr d (listing d st) (listing d st) st = Raised e st'" by blast
  with True assms(3) show ?thesis by (simp add: merge_Sentinel_many)
qed

lemma inner_loop_run_pairs: "inner_loop xr d f files st = run_pairs xr d (map (Pair f) files) st"
proof (induction files arbitrary: st)
  case Nil
  show ?case by simp
next
  case (Cons g gs)
  show ?case by (cases "pair_body xr d f g st") (simp_all add: Cons.IH)
qed

lemma run_pairs_append:
  "run_pairs xr d (ps @ qs) st = and_then (run_pairs xr d ps st) (\<lambda>_ st. run_pairs xr d qs st)"
proof (induction ps arbitrary: st)
  case Nil
  show ?case by simp
next
  case (Cons p ps)
  obtain f g where p: "p = (f, g)" by (cases p)
  show ?case unfolding p by (cases "pair_body xr d f g st") (simp_all add: Cons.IH)
qed

lemma outer_loop_run_pairs: "outer_loop xr d fs files st = run_pairs xr d (List.product fs files) st"
proof (induction fs arbitrary: st)
  case Nil
  show ?case by simp
next
  case (Cons f fs)
  show ?case
    by (cases "inner_loop xr d f files st")
       (simp_all add: run_pairs_append inner_loop_run_pairs[symmetric] Cons.IH)
qed

section \<open>The claims of the specification\<close>

text \<open>
  C2. The grid size of \<open>loadBand\<close> is 10980 for resolution 10, 5490 for 20, 1830 for 60 and
  1098 for 100, and for each of these resolutions, whatever floats the bounds are, the
  latitude and the longitude vector the loop builds have exactly that length. For any other
  resolution there is no grid size: \<open>NoResolution("Invalid Resolution, try 10, 20, 60 or 100")\<close>
  is raised, by the size rule and by \<open>loadBand\<close> once both rasters are open. When both
  rasters open, the date is a string \<open>pd.date_range\<close> accepts and the two arrays read
  have the shape \<open>(1, size, size)\<close> that \<open>xr.Dataset\<close> requires under the three
  coordinates, \<open>loadBand\<close> returns a dataset whose \<open>lat\<close> and \<open>lon\<close> coordinates have
  exactly that length.
\<close>

theorem grid_size_and_vector_lengths:
  "grid_size 10 = Inr 10980 \<and> grid_size 20 = Inr 5490 \<and> grid_size 60 = Inr 1830 \<and> grid_size 100 = Inr 1098
   \<and> (resolution \<in> {10, 20, 60, 100} \<longrightarrow>
        (\<exists>res lats lons. grid_size resolution = Inr res
           \<and> coordinate_vectors res left bottom resolution = Inr (lats, lons)
           \<and> int (length lats) = res \<and> int (length lons) = res))
   \<and> (resolution \<notin> {10, 20, 60, 100} \<longrightarrow>
        grid_size resolution = Inl (NoResolution ''Invalid Resolution, try 10, 20, 60 or 100''))
   \<and> (resolution \<notin> {10, 20, 60, 100} \<and> rasters path4 = Some b4 \<and> rasters path8 = Some b8 \<longrightarrow>
        (\<exists>st'. loadBand rasters read_resampled date_parses [path4, path8] date tile resolution plName prLevel directory st
                 = Raised (NoResolution ''Invalid Resolution, try 10, 20, 60 or 100'') st'))
   \<and> (rasters path4 = Some b4 \<and> rasters path8 = Some b8 \<and> grid_size resolution = Inr res \<and> date_parses date
        \<and> read_shape resolution b4 = (1, nat res, nat res) \<and> read_shape resolution b8 = (1, nat res, nat res)
      \<longrightarrow>
        (\<exists>ds st'. loadBand rasters read_resampled date_parses [path4, path8] date tile resolution plName prLevel directory st
                 = Returned ds st'
            \<and> int (length (lat ds)) = res \<and> int (length (lon ds)) = res))"
proof -
  have sizes: "grid_size 10 = Inr 10980" "grid_size 20 = Inr 5490" "grid_size 60 = Inr 1830"
      "grid_size 100 = Inr 1098"
    by (simp_all add: grid_size_def)
  have lengths: "\<exists>res lats lons. grid_size resolution = Inr res
           \<and> coordinate_vectors res left bottom resolution = Inr (lats, lons)
           \<and> int (length lats) = res \<and> int (length lons) = res" if "resolution \<in> {10, 20, 60, 100}"
  proof -
    from that obtain r where g: "grid_size resolution = Inr r" and p: "0 \<le> r"
      using sizes by auto
    from coordinate_vectors_spec[OF grid_products_small[OF g], of left bottom] p g show ?thesis by auto
  qed
  have refused: "grid_size resolution = Inl (NoResolution ''Invalid Resolution, try 10, 20, 60 or 100'')"
    if "resolution \<notin> {10, 20, 60, 100}"
    using that by (simp add: grid_size_def)
  have raised: "\<exists>st'. loadBand rasters read_resampled date_parses [path4, path8] date tile resolution plName prLevel directory st
                 = Raised (NoResolution ''Invalid Resolution, try 10, 20, 60 or 100'') st'"
    if "resolution \<notin> {10, 20, 60, 100}" "rasters path4 = Some b4" "rasters path8 = Some b8"
    using loadBand_unsupported[OF that(2,3,1)] by blast
  have returned: "\<exists>ds st'. loadBand rasters read_resampled date_parses [path4, path8] date tile resolution plName prLevel directory st
                 = Returned ds st'
            \<and> int (length (lat ds)) = res \<and> int (length (lon ds)) = res"
    if h: "rasters path4 = Some b4" "rasters path8 = Some b8" "grid_size resolution = Inr res" "date_parses date"
      "read_shape resolution b4 = (1, nat res, nat res)" "read_shape resolution b8 = (1, nat res, nat res)"
  proof -
    have p: "0 \<le> res" using h(3) by (auto simp: grid_size_def split: if_splits)
    obtain ds st' where
      lb: "loadBand rasters read_resampled date_parses [path4, path8] date tile resolution plName prLevel directory st
             = Returned ds st'"
      and cv: "coordinate_vectors res (bounds_left b4) (bounds_bottom b4) resolution = Inr (lat ds, lon ds)"
      using loadBand_returns[where rasters = rasters and date_parses = date_parses and date = date
          and ?path4.0 = path4 and ?path8.0 = path8 and read_resampled = read_resampled and tile = tile
          and plName = plName and prLevel = prLevel and directory = directory and st = st, OF h]
      by blast
    from coordinate_vectors_spec[OF grid_products_small[OF h(3)], of "bounds_left b4" "bounds_bottom b4"] cv p
    have "int (length (lat ds)) = res" "int (length (lon ds)) = res" by auto
    with lb show ?thesis by blast
  qed
  show ?thesis using sizes lengths refused raised returned by blast
qed

theorem grid_size_and_vector_lengths_witness:
  "(\<exists>res lats lons. grid_size 60 = Inr res
       \<and> coordinate_vectors res (Finite 300000) (Finite 5590200) 60 = Inr (lats, lons)
       \<and> int (length lats) = res \<and> int (length lons) = res)
   \<and> grid_size 30 = Inl (NoResolution ''Invalid Resolution, try 10, 20, 60 or 100'')
   \<and> (\<exists>st'. loadBand example_rasters (\<lambda>r shape. pixels r) iso_date [''T32ULC_B04_60m.jp2'', ''T32ULC_B8A_60m.jp2'']
               ''2020-06-01'' ''T32ULC'' 30 ''Sentinel-2'' ''Level-2A'' ''ws/'' empty_state
             = Raised (NoResolution ''Invalid Resolution, try 10, 20, 60 or 100'') st')
   \<and> (\<exists>ds st'. loadBand example_rasters (\<lambda>r shape. pixels r) iso_date [''T32ULC_B04_60m.jp2'', ''T32ULC_B8A_60m.jp2'']
               ''2020-06-01'' ''T32ULC'' 60 ''Sentinel-2'' ''Level-2A'' ''ws/'' empty_state
             = Returned ds st' \<and> length (lat ds) = 1830 \<and> length (lon ds) = 1830)"
proof -
  let ?b4 = "\<lparr> bounds_left = Finite 300000, bounds_bottom = Finite 5590200, count = 1,
                                 height = 1830, width = 1830, pixels = 4 :: nat \<rparr>"
  let ?b8 = "\<lparr> bounds_left = Finite 300000, bounds_bottom = Finite 5590200, count = 1,
                                 height = 1830, width = 1830, pixels = 8 :: nat \<rparr>"
  have r4: "example_rasters ''T32ULC_B04_60m.jp2'' = Some ?b4"
    and r8: "example_rasters ''T32ULC_B8A_60m.jp2'' = Some ?b8"
    by (simp_all add: example_rasters_def)
  have in60: "(60::int) \<in> {10, 20, 60, 100}" and out30: "(30::int) \<notin> {10, 20, 60, 100}"
    by simp_all
  have g60: "grid_size 60 = Inr 1830" by (simp add: grid_size_def)
  have dp: "iso_date ''2020-06-01''" by (simp add: iso_date_def)
  have sh: "read_shape 60 ?b4 = (1, nat 1830, nat 1830)" "read_shape 60 ?b8 = (1, nat 1830, nat 1830)"
    by (simp_all add: read_shape_def)
  note t60 = grid_size_and_vector_lengths[where resolution = 60 and left = "Finite 300000" and bottom = "Finite 5590200"
      and rasters = example_rasters and ?path4.0 = "''T32ULC_B04_60m.jp2''" and ?path8.0 = "''T32ULC_B8A_60m.jp2''"
      and ?b4.0 = ?b4 and ?b8.0 = ?b8 and res = 1830 and date_parses = iso_date
      and read_resampled = "\<lambda>r shape. pixels r" and date = "''2020-06-01''" and tile = "''T32ULC''"
      and plName = "''Sentinel-2''" and prLevel = "''Level-2A''" and directory = "''ws/''" and st = empty_state]
  note t30 = grid_size_and_vector_lengths[where resolution = 30 and left = "Finite 300000" and bottom = "Finite 5590200"
      and rasters = example_rasters and ?path4.0 = "''T32ULC_B04_60m.jp2''" and ?path8.0 = "''T32ULC_B8A_60m.jp2''"
      and ?b4.0 = ?b4 and ?b8.0 = ?b8 and res = 1830 and date_parses = iso_date
      and read_resampled = "\<lambda>r shape. pixels r" and date = "''2020-06-01''" and tile = "''T32ULC''"
      and plName = "''Sentinel-2''" and prLevel = "''Level-2A''" and directory = "''ws/''" and st = empty_state]
  have a: "\<exists>res lats lons. grid_size 60 = Inr res
       \<and> coordinate_vectors res (Finite 300000) (Finite 5590200) 60 = Inr (lats, lons)
       \<and> int (length lats) = res \<and> int (length lons) = res"
    using t60 in60 by blast
  have b: "grid_size 30 = Inl (NoResolution ''Invalid Resolution, try 10, 20, 60 or 100'')"
    using t30 out30 by blast
  have c: "\<exists>st'. loadBand example_rasters (\<lambda>r shape. pixels r) iso_date [''T32ULC_B04_60m.jp2'', ''T32ULC_B8A_60m.jp2'']
               ''2020-06-01'' ''T32ULC'' 30 ''Sentinel-2'' ''Level-2A'' ''ws/'' empty_state
             = Raised (NoResolution ''Invalid Resolution, try 10, 20, 60 or 100'') st'"
    using t30 out30 r4 r8 by blast
  have "\<exists>ds st'. loadBand example_rasters (\<lambda>r shape. pixels r) iso_date [''T32ULC_B04_60m.jp2'', ''T32ULC_B8A_60m.jp2'']
               ''2020-06-01'' ''T32ULC'' 60 ''Sentinel-2'' ''Level-2A'' ''ws/'' empty_state
             = Returned ds st' \<and> int (length (lat ds)) = 1830 \<and> int (length (lon ds)) = 1830"
    using t60 r4 r8 g60 dp sh by blast
  then have d: "\<exists>ds st'. loadBand example_rasters (\<lambda>r shape. pixels r) iso_date [''T32ULC_B04_60m.jp2'', ''T32ULC_B8A_60m.jp2'']
               ''2020-06-01'' ''T32ULC'' 60 ''Sentinel-2'' ''Level-2A'' ''ws/'' empty_state
             = Returned ds st' \<and> length (lat ds) = 1830 \<and> length (lon ds) = 1830"
    by auto
  show ?thesis using a b c d by blast
qed

text \<open>
  C3 (as amended). The coordinates are floats: \<open>lon[i]\<close> is the float sum of the left bound
  and \<open>i * resolution\<close>, \<open>lat[i]\<close> the float sum of the bottom bound and \<open>j * resolution\<close>.
  For finite bounds \<open>l\<close>, \<open>b\<close>, a positive resolution and a size with
  \<open>|l| + size * resolution \<le> 2^52\<close> and \<open>|b| + size * resolution \<le> 2^52\<close>, the loop
  of \<open>loadBand\<close> returns two vectors of that size; \<open>lon[k]\<close> is finite and within \<open>1/4\<close>
  of \<open>l + k * resolution\<close>, \<open>lat[k]\<close> is finite and within \<open>1/4\<close> of
  \<open>b + (size - 1 - k) * resolution\<close>; the longitude vector is strictly increasing and the
  latitude vector strictly decreasing in the index (west to east, north to south). They
  are the \<open>lat\<close> and \<open>lon\<close> coordinates of the dataset \<open>loadBand\<close> returns on a raster with
  these bounds (when both rasters open, the date parses and the arrays have the shape of
  the grid).
\<close>

theorem coordinates_ordered:
  assumes pos: "0 < resolution"
    and bl: "\<bar>l\<bar> + real_of_int (res * resolution) \<le> 2 ^ 52"
    and bb: "\<bar>b\<bar> + real_of_int (res * resolution) \<le> 2 ^ 52"
  shows "\<exists>lats lons. coordinate_vectors res (Finite l) (Finite b) resolution = Inr (lats, lons)
     \<and> length lats = nat res \<and> length lons = nat res
     \<and> (\<forall>k < nat res. \<exists>y. lons ! k = Finite y \<and> \<bar>y - (l + of_int (int k * resolution))\<bar> \<le> 1 / 4)
     \<and> (\<forall>k < nat res. \<exists>y. lats ! k = Finite y \<and> \<bar>y - (b + of_int ((res - 1 - int k) * resolution))\<bar> \<le> 1 / 4)
     \<and> sorted_wrt double_less lons \<and> sorted_wrt (\<lambda>u v. double_less v u) lats
     \<and> (rasters path4 = Some b4 \<and> rasters path8 = Some b8
          \<and> bounds_left b4 = Finite l \<and> bounds_bottom b4 = Finite b
          \<and> grid_size resolution = Inr res \<and> date_parses date
          \<and> read_shape resolution b4 = (1, nat res, nat res) \<and> read_shape resolution b8 = (1, nat res, nat res)
        \<longrightarrow> (\<exists>ds st'. loadBand rasters read_resampled date_parses [path4, path8] date tile resolution
                          plName prLevel directory st = Returned ds st'
                        \<and> lat ds = lats \<and> lon ds = lons))"
proof -
  obtain lats lons where
    cv: "coordinate_vectors res (Finite l) (Finite b) resolution = Inr (lats, lons)"
    and len: "length lats = nat res" "length lons = nat res"
    and lo: "\<forall>k < nat res. lons ! k = double_add (Finite l) (Finite (of_int (int k * resolution)))"
    and la: "\<forall>k < nat res. lats ! k = double_add (Finite b) (Finite (of_int ((res - 1 - int k) * resolution)))"
    using coordinate_vectors_spec[OF bounded_products_small[OF pos bl], of "Finite l" "Finite b"] by blast
  have lon_near: "\<exists>y. lons ! k = Finite y \<and> \<bar>y - (l + of_int (int k * resolution))\<bar> \<le> 1 / 4"
    if "k < nat res" for k
  proof -
    from that have "0 \<le> int k" "int k < res" by auto
    from ascending_values_near[OF pos bl this] lo that show ?thesis by simp
  qed
  have lat_near: "\<exists>y. lats ! k = Finite y \<and> \<bar>y - (b + of_int ((res - 1 - int k) * resolution))\<bar> \<le> 1 / 4"
    if "k < nat res" for k
  proof -
    from that have "0 \<le> res - 1 - int k" "res - 1 - int k < res" by auto
    from ascending_values_near[OF pos bb this] la that show ?thesis by simp
  qed
  have s_lon: "sorted_wrt double_less lons"
    unfolding sorted_wrt_iff_nth_less
  proof (intro allI impI)
    fix i j assume ij: "i < j" "j < length lons"
    then have i: "i < nat res" and j: "j < nat res" using len by auto
    obtain yi where yi: "lons ! i = Finite yi" "\<bar>yi - (l + of_int (int i * resolution))\<bar> \<le> 1 / 4"
      using lon_near[OF i] by blast
    obtain yj where yj: "lons ! j = Finite yj" "\<bar>yj - (l + of_int (int j * resolution))\<bar> \<le> 1 / 4"
      using lon_near[OF j] by blast
    have "int i + 1 \<le> int j" using ij by simp
    then have "(int i + 1) * resolution \<le> int j * resolution" using pos by (intro mult_right_mono) auto
    then have "int i * resolution + 1 \<le> int j * resolution" using pos by (simp add: algebra_simps)
    then have "real_of_int (int i * resolution + 1) \<le> real_of_int (int j * resolution)"
      by (simp only: of_int_le_iff)
    then have "real_of_int (int i * resolution) + 1 \<le> real_of_int (int j * resolution)" by simp
    with yi yj have "yi < yj" by linarith
    with yi yj show "double_less (lons ! i) (lons ! j)" by simp
  qed
  have s_lat: "sorted_wrt (\<lambda>u v. double_less v u) lats"
    unfolding sorted_wrt_iff_nth_less
  proof (intro allI impI)
    fix i j assume ij: "i < j" "j < length lats"
    then have i: "i < nat res" and j: "j < nat res" using len by auto
    obtain yi where yi: "lats ! i = Finite yi" "\<bar>yi - (b + of_int ((res - 1 - int i) * resolution))\<bar> \<le> 1 / 4"
      using lat_near[OF i] by blast
    obtain yj where yj: "lats ! j = Finite yj" "\<bar>yj - (b + of_int ((res - 1 - int j) * resolution))\<bar> \<le> 1 / 4"
      using lat_near[OF j] by blast
    have "(res - 1 - int j) + 1 \<le> res - 1 - int i" using ij by simp
    then have "((res - 1 - int j) + 1) * resolution \<le> (res - 1 - int i) * resolution"
      using pos by (intro mult_right_mono) auto
    then have "(res - 1 - int j) * resolution + 1 \<le> (res - 1 - int i) * resolution"
      using pos by (simp add: algebra_simps)
    then have "real_of_int ((res - 1 - int j) * resolution + 1) \<le> real_of_int ((res - 1 - int i) * resolution)"
      by (simp only: of_int_le_iff)
    then have "real_of_int ((res - 1 - int j) * resolution) + 1 \<le> real_of_int ((res - 1 - int i) * resolution)"
      by simp
    with yi yj have "yj < yi" by linarith
    with yi yj show "double_less (lats ! j) (lats ! i)" by simp
  qed
  have link: "\<exists>ds st'. loadBand rasters read_resampled date_parses [path4, path8] date tile resolution
                          plName prLevel directory st = Returned ds st'
                        \<and> lat ds = lats \<and> lon ds = lons"
    if h: "rasters path4 = Some b4" "rasters path8 = Some b8"
      "bounds_left b4 = Finite l" "bounds_bottom b4 = Finite b"
      "grid_size resolution = Inr res" "date_parses date"
      "read_shape resolution b4 = (1, nat res, nat res)" "read_shape resolution b8 = (1, nat res, nat res)"
  proof -
    obtain ds st' where
      lb: "loadBand rasters read_resampled date_parses [path4, path8] date tile resolution plName prLevel directory st
             = Returned ds st'"
      and c: "coordinate_vectors res (bounds_left b4) (bounds_bottom b4) resolution = Inr (lat ds, lon ds)"
      using loadBand_returns[where rasters = rasters and date_parses = date_parses and date = date
          and ?path4.0 = path4 and ?path8.0 = path8 and read_resampled = read_resampled and tile = tile
          and plName = plName and prLevel = prLevel and directory = directory and st = st, OF h(1,2,5,6,7,8)]
      by blast
    from c cv h(3,4) have "lat ds = lats" "lon ds = lons" by simp_all
    with lb show ?thesis by blast
  qed
  show ?thesis
    using cv len lon_near lat_near s_lon s_lat link by blast
qed

theorem coordinates_ordered_witness:
  "\<exists>lats lons. coordinate_vectors 1830 (Finite 300000) (Finite 5590200) 60 = Inr (lats, lons)
     \<and> length lats = 1830 \<and> length lons = 1830
     \<and> sorted_wrt double_less lons \<and> sorted_wrt (\<lambda>u v. double_less v u) lats
     \<and> (\<exists>ds st'. loadBand example_rasters (\<lambda>r shape. pixels r) iso_date
                     [''T32ULC_B04_60m.jp2'', ''T32ULC_B8A_60m.jp2'']
                     ''2020-06-01'' ''T32ULC'' 60 ''Sentinel-2'' ''Level-2A'' ''ws/'' empty_state
                   = Returned ds st' \<and> lat ds = lats \<and> lon ds = lons)"
proof -
  let ?b4 = "\<lparr> bounds_left = Finite 300000, bounds_bottom = Finite 5590200, count = 1,
                                 height = 1830, width = 1830, pixels = 4 :: nat \<rparr>"
  let ?b8 = "\<lparr> bounds_left = Finite 300000, bounds_bottom = Finite 5590200, count = 1,
                                 height = 1830, width = 1830, pixels = 8 :: nat \<rparr>"
  have pos: "(0::int) < 60" by simp
  have bl: "\<bar>300000 :: real\<bar> + real_of_int (1830 * 60) \<le> 2 ^ 52" by simp
  have bb: "\<bar>5590200 :: real\<bar> + real_of_int (1830 * 60) \<le> 2 ^ 52" by simp
  have run: "example_rasters ''T32ULC_B04_60m.jp2'' = Some ?b4 \<and> example_rasters ''T32ULC_B8A_60m.jp2'' = Some ?b8
          \<and> bounds_left ?b4 = Finite 300000 \<and> bounds_bottom ?b4 = Finite 5590200
          \<and> grid_size 60 = Inr 1830 \<and> iso_date ''2020-06-01''
          \<and> read_shape 60 ?b4 = (1, nat 1830, nat 1830) \<and> read_shape 60 ?b8 = (1, nat 1830, nat 1830)"
    by (simp add: example_rasters_def grid_size_def iso_date_def read_shape_def)
  from coordinates_ordered[OF pos bl bb, where rasters = example_rasters
      and ?path4.0 = "''T32ULC_B04_60m.jp2''" and ?path8.0 = "''T32ULC_B8A_60m.jp2''"
      and ?b4.0 = ?b4 and ?b8.0 = ?b8 and date_parses = iso_date and date = "''2020-06-01''"
      and read_resampled = "\<lambda>r shape. pixels r" and tile = "''T32ULC''"
      and plName = "''Sentinel-2''" and prLevel = "''Level-2A''" and directory = "''ws/''" and st = empty_state]
  obtain lats lons where
    "coordinate_vectors 1830 (Finite 300000) (Finite 5590200) 60 = Inr (lats, lons)"
    "length lats = nat 1830" "length lons = nat 1830"
    "sorted_wrt double_less lons" "sorted_wrt (\<lambda>u v. double_less v u) lats"
    "example_rasters ''T32ULC_B04_60m.jp2'' = Some ?b4 \<and> example_rasters ''T32ULC_B8A_60m.jp2'' = Some ?b8
          \<and> bounds_left ?b4 = Finite 300000 \<and> bounds_bottom ?b4 = Finite 5590200
          \<and> grid_size 60 = Inr 1830 \<and> iso_date ''2020-06-01''
          \<and> read_shape 60 ?b4 = (1, nat 1830, nat 1830) \<and> read_shape 60 ?b8 = (1, nat 1830, nat 1830)
      \<longrightarrow> (\<exists>ds st'. loadBand example_rasters (\<lambda>r shape. pixels r) iso_date
                     [''T32ULC_B04_60m.jp2'', ''T32ULC_B8A_60m.jp2'']
                     ''2020-06-01'' ''T32ULC'' 60 ''Sentinel-2'' ''Level-2A'' ''ws/'' empty_state
                   = Returned ds st' \<and> lat ds = lats \<and> lon ds = lons)"
    by blast
  with run show ?thesis by auto
qed

text \<open>
  C3 as stated, for every raster bound, fails: the sums are rounded to the nearest float.
  On rasters with left bound \<open>1e18\<close> at resolution 10, \<open>loadBand\<close> returns a dataset whose
  first two longitudes are both \<open>1e18\<close> (floats near \<open>1e18\<close> are 128 apart), so the
  longitude vector is not strictly increasing.
\<close>

theorem coordinates_ordered_counterexample:
  "\<exists>ds st'. loadBand
       (map_of [(''B04_10m.jp2'', \<lparr> bounds_left = Finite 1000000000000000000, bounds_bottom = Finite 5590200,
                                     count = 1, height = 10980, width = 10980, pixels = 4 \<rparr>),
                (''B08_10m.jp2'', \<lparr> bounds_left = Finite 1000000000000000000, bounds_bottom = Finite 5590200,
                                     count = 1, height = 10980, width = 10980, pixels = 8 \<rparr>)])
       (\<lambda>r shape. pixels r) iso_date [''B04_10m.jp2'', ''B08_10m.jp2'']
       ''2020-06-01'' ''T32ULC'' 10 ''Sentinel-2'' ''Level-2A'' ''ws/'' empty_state
     = Returned ds st'
     \<and> lon ds ! 0 = Finite 1000000000000000000 \<and> lon ds ! 1 = Finite 1000000000000000000
     \<and> \<not> sorted_wrt double_less (lon ds)"
proof -
  let ?b4 = "\<lparr> bounds_left = Finite 1000000000000000000, bounds_bottom = Finite 5590200,
                count = 1, height = 10980, width = 10980, pixels = 4 :: nat \<rparr>"
  let ?b8 = "\<lparr> bounds_left = Finite 1000000000000000000, bounds_bottom = Finite 5590200,
                count = 1, height = 10980, width = 10980, pixels = 8 :: nat \<rparr>"
  let ?rasters = "map_of [(''B04_10m.jp2'', ?b4), (''B08_10m.jp2'', ?b8)]"
  have r4: "?rasters ''B04_10m.jp2'' = Some ?b4" and r8: "?rasters ''B08_10m.jp2'' = Some ?b8"
    by simp_all
  have g: "grid_size 10 = Inr 10980" by (simp add: grid_size_def)
  have dp: "iso_date ''2020-06-01''" by (simp add: iso_date_def)
  have sh: "read_shape 10 ?b4 = (1, nat 10980, nat 10980)" "read_shape 10 ?b8 = (1, nat 10980, nat 10980)"
    by (simp_all add: read_shape_def)
  obtain ds st' where
    lb: "loadBand ?rasters (\<lambda>r shape. pixels r) iso_date [''B04_10m.jp2'', ''B08_10m.jp2'']
           ''2020-06-01'' ''T32ULC'' 10 ''Sentinel-2'' ''Level-2A'' ''ws/'' empty_state = Returned ds st'"
    and cv: "coordinate_vectors 10980 (bounds_left ?b4) (bounds_bottom ?b4) 10 = Inr (lat ds, lon ds)"
    using loadBand_returns[where rasters = ?rasters and date_parses = iso_date and date = "''2020-06-01''"
          and ?path4.0 = "''B04_10m.jp2''" and ?path8.0 = "''B08_10m.jp2''"
          and read_resampled = "\<lambda>r shape. pixels r" and tile = "''T32ULC''"
          and plName = "''Sentinel-2''" and prLevel = "''Level-2A''" and directory = "''ws/''"
          and st = empty_state, OF r4 r8 g dp sh]
    by blast
  from coordinate_vectors_spec[OF grid_products_small[OF g], of "bounds_left ?b4" "bounds_bottom ?b4"] cv
  have len: "length (lon ds) = nat 10980"
    and lo: "\<forall>k < nat 10980. lon ds ! k = double_add (bounds_left ?b4) (Finite (of_int (int k * 10)))"
    by auto
  have v0: "lon ds ! 0 = Finite 1000000000000000000"
    using lo[rule_format, of 0] by (simp add: double_add_def round_double_1e18)
  have v1: "lon ds ! 1 = Finite 1000000000000000000"
    using lo[rule_format, of 1] round_double_1e18_plus_10 by (simp add: double_add_def)
  have "\<not> sorted_wrt double_less (lon ds)"
  proof
    assume "sorted_wrt double_less (lon ds)"
    then have "double_less (lon ds ! 0) (lon ds ! 1)"
      using len by (auto simp: sorted_wrt_iff_nth_less)
    with v0 v1 show False by simp
  qed
  with lb v0 v1 show ?thesis by blast
qed

text \<open>
  C5. The claim is that \<open>loadBand\<close> closes both raster handles on every exit path. Called
  with resolution 30 on two rasters that open, it raises \<open>NoResolution\<close> and leaves both
  handles open: \<open>b4.close()\<close> and \<open>b8.close()\<close> stand only at the end of the normal path.
\<close>

theorem loadBand_error_leaves_handles_open:
  "loadBand example_rasters (\<lambda>r shape. pixels r) iso_date [''T32ULC_B04_60m.jp2'', ''T32ULC_B8A_60m.jp2'']
       ''2020-06-01'' ''T32ULC'' 30 ''Sentinel-2'' ''Level-2A'' ''ws/'' \<lparr> open_handles = [], written = [] \<rparr>
     = Raised (NoResolution ''Invalid Resolution, try 10, 20, 60 or 100'')
         \<lparr> open_handles = [''T32ULC_B8A_60m.jp2'', ''T32ULC_B04_60m.jp2''], written = [] \<rparr>"
  by (simp add: loadBand_def py_index_def rio_open_def example_rasters_def grid_size_def)

text \<open>
  C4 (as amended). Identity parsing never fails: \<open>getDate\<close>, \<open>getTile\<close> and the slices of
  \<open>merge_Sentinel\<close> are Python slices, which truncate. A name of at most 11 characters
  has the date \<open>--\<close>, a name of at most 38 characters has the empty tile, the date has
  at most 10 and the tile at most 6 characters, and two names of at most 9 characters are
  taken for duplicates by the loop body, which returns with the files unchanged.
\<close>

theorem short_names_are_sliced:
  "(length name \<le> 11 \<longrightarrow> getDate name = ''--'')
   \<and> (length name \<le> 38 \<longrightarrow> getTile name = [])
   \<and> length (getDate name) \<le> 10 \<and> length (getTile name) \<le> 6
   \<and> (length file1 \<le> 9 \<and> length file2 \<le> 9 \<longrightarrow> pair_body xr d file1 file2 st = Returned () st)"
  by (simp add: getDate_def getTile_def slice_def pair_body_def)

theorem short_names_are_sliced_witness:
  "getDate ''x.SAFE'' = ''--'' \<and> getTile ''x.SAFE'' = []
   \<and> pair_body lon_axis ''ws/'' ''a.nc'' ''b.nc'' \<lparr>disk = [(''ws/a.nc'', [1]), (''ws/b.nc'', [2])], opened = []\<rparr>
       = Returned () \<lparr>disk = [(''ws/a.nc'', [1]), (''ws/b.nc'', [2])], opened = []\<rparr>"
proof -
  have "length ''x.SAFE'' \<le> 11" "length ''x.SAFE'' \<le> 38" "length ''a.nc'' \<le> 9 \<and> length ''b.nc'' \<le> 9"
    by simp_all
  with short_names_are_sliced[of "''x.SAFE''" "''a.nc''" "''b.nc''" lon_axis "''ws/''"
      "\<lparr>disk = [(''ws/a.nc'', [1]), (''ws/b.nc'', [2])], opened = []\<rparr>"]
  show ?thesis by blast
qed

text \<open>
  C4 as stated fails: a short name yields an empty identity and no error, and a merge
  over two short names runs to its end.
\<close>

theorem short_names_are_sliced_counterexample:
  "getDate ''x.SAFE'' = ''--'' \<and> getTile ''x.SAFE'' = []
   \<and> merge_Sentinel lon_axis ''ws/'' ''cube'' \<lparr>disk = [(''ws/a.nc'', [1]), (''ws/b.nc'', [2])], opened = []\<rparr>
       = Returned () \<lparr>disk = [(''ws/cube.nc'', [1, 2])], opened = []\<rparr>"
  by (simp add: getDate_def getTile_def slice_def merge_Sentinel_def os_listdir_def listing_def
        List.map_filter_simps entry_of_def path_join_def endswith_def
        pair_body_def concat_phase_def open_dataset_def close_dataset_def to_netcdf_def delete_def
        AList.delete_eq lon_axis_def combine_axes_def)

text \<open>
  C10. On a directory that lists no file \<open>merge_Sentinel\<close> raises
  \<open>FileNotFoundError("Directory empty")\<close>; on a directory whose listing holds a file that
  does not end in \<open>.nc\<close> it raises \<open>TypeError("Wrong file in directory")\<close>. In both cases
  the files are left as they were: nothing has been renamed, merged or deleted. (The
  directory is named by a non-empty string; on the empty string \<open>os.listdir\<close> itself raises,
  and the files are left as they were too.)
\<close>

theorem merge_Sentinel_rejects:
  "(d \<noteq> [] \<and> listing d st = [] \<longrightarrow>
      merge_Sentinel xr d nameSentinel st = Raised (FileNotFoundError ''Directory empty'') st)
   \<and> (d \<noteq> [] \<and> (\<exists>f \<in> set (listing d st). \<not> endswith f ''.nc'') \<longrightarrow>
        merge_Sentinel xr d nameSentinel st = Raised (TypeError ''Wrong file in directory'') st)
   \<and> (d = [] \<longrightarrow> merge_Sentinel xr d nameSentinel st = Raised (FileNotFoundError []) st)"
  by (auto simp: merge_Sentinel_def os_listdir_def list_all_iff)

theorem merge_Sentinel_rejects_witness:
  "merge_Sentinel lon_axis ''ws/'' ''cube'' \<lparr>disk = [], opened = []\<rparr>
     = Raised (FileNotFoundError ''Directory empty'') \<lparr>disk = [], opened = []\<rparr>
   \<and> merge_Sentinel lon_axis ''ws/'' ''cube''
        \<lparr>disk = [(''ws/datacube_2020-06-01_T32ULC_R100.nc'', [1, 2]), (''ws/notes.txt'', [])], opened = []\<rparr>
      = Raised (TypeError ''Wrong file in directory'')
          \<lparr>disk = [(''ws/datacube_2020-06-01_T32ULC_R100.nc'', [1, 2]), (''ws/notes.txt'', [])], opened = []\<rparr>
   \<and> merge_Sentinel lon_axis [] ''cube''
        \<lparr>disk = [(''ws/datacube_2020-06-01_T32ULC_R100.nc'', [1, 2])], opened = []\<rparr>
      = Raised (FileNotFoundError [])
          \<lparr>disk = [(''ws/datacube_2020-06-01_T32ULC_R100.nc'', [1, 2])], opened = []\<rparr>"
proof -
  let ?e = "\<lparr>disk = [] :: (string \<times> real list) list, opened = []\<rparr>"
  let ?st = "\<lparr>disk = [(''ws/datacube_2020-06-01_T32ULC_R100.nc'', [1, 2 :: real]), (''ws/notes.txt'', [])],
              opened = []\<rparr>"
  let ?one = "\<lparr>disk = [(''ws/datacube_2020-06-01_T32ULC_R100.nc'', [1, 2 :: real])], opened = []\<rparr>"
  have a: "''ws/'' \<noteq> [] \<and> listing ''ws/'' ?e = []"
    by (simp add: listing_def List.map_filter_simps)
  have b: "''ws/'' \<noteq> [] \<and> (\<exists>f \<in> set (listing ''ws/'' ?st). \<not> endswith f ''.nc'')"
    by (simp add: listing_def List.map_filter_simps entry_of_def path_join_def endswith_def)
  from merge_Sentinel_rejects[of "''ws/''" ?e lon_axis "''cube''"] a
  have 1: "merge_Sentinel lon_axis ''ws/'' ''cube'' ?e = Raised (FileNotFoundError ''Directory empty'') ?e"
    by blast
  from merge_Sentinel_rejects[of "''ws/''" ?st lon_axis "''cube''"] b
  have 2: "merge_Sentinel lon_axis ''ws/'' ''cube'' ?st = Raised (TypeError ''Wrong file in directory'') ?st"
    by blast
  from merge_Sentinel_rejects[of "[]" ?one lon_axis "''cube''"]
  have 3: "merge_Sentinel lon_axis [] ''cube'' ?one = Raised (FileNotFoundError []) ?one"
    by blast
  from 1 2 3 show ?thesis by blast
qed










text \<open>
  C6. The claim is that a file with zone marker \<open>31\<close> is deleted, only while it exists, and
  the merge of the other files completes. On two files, one in zone 31, in either listing
  order, \<open>merge_Sentinel\<close> deletes the file and then calls \<open>delete\<close> on it again at the next
  pair, which raises \<open>NoPath\<close>; no cube is written.
\<close>

theorem zone31_file_aborts_merge:
  "merge_Sentinel lon_axis ''ws/'' ''cube''
     \<lparr>disk = [(''ws/datacube_2020-06-01_T31UGT_R100.nc'', [699960, 700060]),
              (''ws/datacube_2020-06-01_T32ULC_R100.nc'', [300000, 300100])], opened = []\<rparr>
   = Raised (NoPath ''No file in this path'')
       \<lparr>disk = [(''ws/datacube_2020-06-01_T32ULC_R100.nc'', [300000, 300100])], opened = []\<rparr>
   \<and> merge_Sentinel lon_axis ''ws/'' ''cube''
     \<lparr>disk = [(''ws/datacube_2020-06-01_T32ULC_R100.nc'', [300000, 300100]),
              (''ws/datacube_2020-06-01_T31UGT_R100.nc'', [699960, 700060])], opened = []\<rparr>
   = Raised (NoPath ''No file in this path'')
       \<lparr>disk = [(''ws/datacube_2020-06-01_T32ULC_R100.nc'', [300000, 300100])], opened = []\<rparr>"
  by (simp add: merge_Sentinel_def os_listdir_def listing_def List.map_filter_simps entry_of_def
        path_join_def endswith_def pair_body_def slice_def delete_def AList.delete_eq)

text \<open>
  C7 (as amended). The pairs the two loops of \<open>merge_Sentinel\<close> compare are the pairs of
  the listing read once before the loops, in row-major order, whatever the comparisons
  delete or create in between; the directory is listed again only after the loops, for
  the final combination.
\<close>

theorem pairs_from_initial_listing:
  "outer_loop xr d files files st = run_pairs xr d (List.product files files) st
   \<and> (d \<noteq> [] \<and> list_all (\<lambda>nc. endswith nc ''.nc'') (listing d st) \<and> 2 \<le> length (listing d st) \<longrightarrow>
        merge_Sentinel xr d nameSentinel st =
          and_then (run_pairs xr d (List.product (listing d st) (listing d st)) st)
            (\<lambda>_ st'. concat_phase xr d nameSentinel st'))"
  by (simp add: outer_loop_run_pairs merge_Sentinel_many)

theorem pairs_from_initial_listing_witness:
  "merge_Sentinel lon_axis ''ws/'' ''cube''
       \<lparr>disk = [(''ws/datacube_2020-06-01_T32ULC_R100.nc'', [300000, 300100]),
                (''ws/datacube_2020-06-01_T32UMC_R100.nc'', [399960, 400060])], opened = []\<rparr>
     = and_then (run_pairs lon_axis ''ws/''
          [(''datacube_2020-06-01_T32ULC_R100.nc'', ''datacube_2020-06-01_T32ULC_R100.nc''),
           (''datacube_2020-06-01_T32ULC_R100.nc'', ''datacube_2020-06-01_T32UMC_R100.nc''),
           (''datacube_2020-06-01_T32UMC_R100.nc'', ''datacube_2020-06-01_T32ULC_R100.nc''),
           (''datacube_2020-06-01_T32UMC_R100.nc'', ''datacube_2020-06-01_T32UMC_R100.nc'')]
          \<lparr>disk = [(''ws/datacube_2020-06-01_T32ULC_R100.nc'', [300000, 300100]),
                   (''ws/datacube_2020-06-01_T32UMC_R100.nc'', [399960, 400060])], opened = []\<rparr>)
        (\<lambda>_ st'. concat_phase lon_axis ''ws/'' ''cube'' st')"
proof -
  let ?st = "\<lparr>disk = [(''ws/datacube_2020-06-01_T32ULC_R100.nc'', [300000, 300100 :: real]),
                       (''ws/datacube_2020-06-01_T32UMC_R100.nc'', [399960, 400060])], opened = []\<rparr>"
  have l: "listing ''ws/'' ?st = [''datacube_2020-06-01_T32ULC_R100.nc'', ''datacube_2020-06-01_T32UMC_R100.nc'']"
    by (simp add: listing_def List.map_filter_simps entry_of_def path_join_def)
  have h: "''ws/'' \<noteq> [] \<and> list_all (\<lambda>nc. endswith nc ''.nc'') (listing ''ws/'' ?st) \<and> 2 \<le> length (listing ''ws/'' ?st)"
    unfolding l by (simp add: endswith_def)
  from pairs_from_initial_listing[of lon_axis "''ws/''" "listing ''ws/'' ?st" ?st "''cube''"] h
  have "merge_Sentinel lon_axis ''ws/'' ''cube'' ?st =
          and_then (run_pairs lon_axis ''ws/'' (List.product (listing ''ws/'' ?st) (listing ''ws/'' ?st)) ?st)
            (\<lambda>_ st'. concat_phase lon_axis ''ws/'' ''cube'' st')"
    by blast
  then show ?thesis unfolding l by simp
qed

text \<open>
  C7 as stated fails on an adjacent pair: after the second comparison both files are
  gone and the merged file is the only one in the directory, yet the third comparison is
  of the two deleted names, and the merged file is never compared.
\<close>

theorem pairs_from_initial_listing_counterexample:
  "run_pairs lon_axis ''ws/''
      [(''datacube_2020-06-01_T32ULC_R100.nc'', ''datacube_2020-06-01_T32ULC_R100.nc''),
       (''datacube_2020-06-01_T32ULC_R100.nc'', ''datacube_2020-06-01_T32UMC_R100.nc'')]
      \<lparr>disk = [(''ws/datacube_2020-06-01_T32ULC_R100.nc'', [300000, 300100]),
               (''ws/datacube_2020-06-01_T32UMC_R100.nc'', [399960, 400060])], opened = []\<rparr>
    = Returned () \<lparr>disk = [(''ws/datacube_2020-06-01_Merged_R100.nc'', [300000, 300100, 399960, 400060])],
                    opened = []\<rparr>
   \<and> \<not> compares_current_listing lon_axis ''ws/''
      (List.product [''datacube_2020-06-01_T32ULC_R100.nc'', ''datacube_2020-06-01_T32UMC_R100.nc'']
                    [''datacube_2020-06-01_T32ULC_R100.nc'', ''datacube_2020-06-01_T32UMC_R100.nc''])
      \<lparr>disk = [(''ws/datacube_2020-06-01_T32ULC_R100.nc'', [300000, 300100]),
               (''ws/datacube_2020-06-01_T32UMC_R100.nc'', [399960, 400060])], opened = []\<rparr>"
  by (simp add: pair_body_def slice_def delete_def listing_def List.map_filter_simps entry_of_def
        path_join_def AList.delete_eq open_dataset_def close_dataset_def to_netcdf_def
        merge_coords_def lon0_def safe_datacube_def lon_axis_def combine_axes_def Let_def)

end
